theory Spec2Isabelle
  imports Main "HOL-Library.Word"
begin

unbundle bit_operations_syntax

section \<open>The seccomp filter builder of android\_os\_seccomp.cpp\<close>

text \<open>
  A shallow embedding of \<^verbatim>\<open>core/jni/android_os_seccomp.cpp\<close>. The
  \<^verbatim>\<open>std::vector<sock_filter>\<close> that the C++ functions mutate through a reference is
  a list that every function takes and returns. The two policy tables
  \<^verbatim>\<open>arm64_filter\<close> and \<^verbatim>\<open>arm_filter\<close> come from
  \<^verbatim>\<open>seccomp_policy.h\<close>, which is generated elsewhere: they are parameters of
  the model, and their \<^verbatim>\<open>_size\<close> constants are the lengths of the lists. The
  system call \<^verbatim>\<open>prctl\<close> is a parameter as well.
\<close>

subsection \<open>Instructions and constants of the kernel headers\<close>

text \<open>\<^verbatim>\<open>struct sock_filter\<close> of \<^verbatim>\<open>linux/filter.h\<close>.\<close>

record sock_filter =
  code :: "16 word"
  jt :: "8 word"
  jf :: "8 word"
  k :: "32 word"

text \<open>\<^verbatim>\<open>struct sock_fprog\<close>: the instruction count and the instructions.\<close>

record sock_fprog =
  len :: "16 word"
  filter_insns :: "sock_filter list"

text \<open>
  The two fields of \<^verbatim>\<open>struct seccomp_data\<close> that the filter reads:
  \<^verbatim>\<open>nr\<close> at byte offset 0 and \<^verbatim>\<open>arch\<close> at byte offset 4.
\<close>

record seccomp_data =
  nr :: "32 word"
  arch :: "32 word"

type_synonym filter_t = "sock_filter list"

text \<open>
  \<^verbatim>\<open>size_t\<close> with the 64 bits it has on aarch64. The file is also compiled for arm,
  where it has 32 bits; the arithmetic below only asks that the instruction count fits.
\<close>

type_synonym size_t = "64 word"

definition syscall_nr :: "32 word" where
  "syscall_nr = 0"

definition arch_nr :: "32 word" where
  "arch_nr = 4"

text \<open>Instruction classes, sizes, modes and jump conditions of \<^verbatim>\<open>linux/bpf_common.h\<close>.\<close>

definition BPF_LD :: "16 word" where "BPF_LD = 0x00"
definition BPF_JMP :: "16 word" where "BPF_JMP = 0x05"
definition BPF_RET :: "16 word" where "BPF_RET = 0x06"
definition BPF_W :: "16 word" where "BPF_W = 0x00"
definition BPF_ABS :: "16 word" where "BPF_ABS = 0x20"
definition BPF_JA :: "16 word" where "BPF_JA = 0x00"
definition BPF_JEQ :: "16 word" where "BPF_JEQ = 0x10"
definition BPF_JGT :: "16 word" where "BPF_JGT = 0x20"
definition BPF_JGE :: "16 word" where "BPF_JGE = 0x30"
definition BPF_JSET :: "16 word" where "BPF_JSET = 0x40"
definition BPF_K :: "16 word" where "BPF_K = 0x00"

text \<open>Return values of \<^verbatim>\<open>linux/seccomp.h\<close>, architecture tags of \<^verbatim>\<open>linux/audit.h\<close>.\<close>

definition SECCOMP_RET_KILL :: "32 word" where "SECCOMP_RET_KILL = 0x00000000"
definition SECCOMP_RET_TRAP :: "32 word" where "SECCOMP_RET_TRAP = 0x00030000"
definition SECCOMP_RET_ERRNO :: "32 word" where "SECCOMP_RET_ERRNO = 0x00050000"
definition SECCOMP_RET_TRACE :: "32 word" where "SECCOMP_RET_TRACE = 0x7ff00000"
definition SECCOMP_RET_ALLOW :: "32 word" where "SECCOMP_RET_ALLOW = 0x7fff0000"

definition AUDIT_ARCH_AARCH64 :: "32 word" where "AUDIT_ARCH_AARCH64 = 0xC00000B7"
definition AUDIT_ARCH_ARM :: "32 word" where "AUDIT_ARCH_ARM = 0x40000028"

text \<open>The initialiser macros \<^verbatim>\<open>BPF_STMT(code, k)\<close> and \<^verbatim>\<open>BPF_JUMP(code, k, jt, jf)\<close>.\<close>

definition BPF_STMT :: "16 word \<Rightarrow> 32 word \<Rightarrow> sock_filter" where
  "BPF_STMT c v = \<lparr>code = c, jt = 0, jf = 0, k = v\<rparr>"

definition BPF_JUMP :: "16 word \<Rightarrow> 32 word \<Rightarrow> 8 word \<Rightarrow> 8 word \<Rightarrow> sock_filter" where
  "BPF_JUMP c v t e = \<lparr>code = c, jt = t, jf = e, k = v\<rparr>"

subsection \<open>The vector\<close>

definition push_back :: "filter_t \<Rightarrow> sock_filter \<Rightarrow> filter_t" where
  "push_back f x = f @ [x]"

text \<open>\<^verbatim>\<open>f.size()\<close>, a \<^verbatim>\<open>size_t\<close>.\<close>

definition vsize :: "filter_t \<Rightarrow> size_t" where
  "vsize f = of_nat (length f)"

subsection \<open>The emitters\<close>

definition Kill :: "filter_t \<Rightarrow> filter_t" where
  "Kill f = push_back f (BPF_STMT (BPF_RET OR BPF_K) SECCOMP_RET_KILL)"

definition Trap :: "filter_t \<Rightarrow> filter_t" where
  "Trap f = push_back f (BPF_STMT (BPF_RET OR BPF_K) SECCOMP_RET_TRAP)"

definition Error :: "filter_t \<Rightarrow> 16 word \<Rightarrow> filter_t" where
  "Error f retcode = push_back f (BPF_STMT (BPF_RET OR BPF_K) (SECCOMP_RET_ERRNO + ucast retcode))"

definition Trace :: "filter_t \<Rightarrow> filter_t" where
  "Trace f = push_back f (BPF_STMT (BPF_RET OR BPF_K) SECCOMP_RET_TRACE)"

definition Allow :: "filter_t \<Rightarrow> filter_t" where
  "Allow f = push_back f (BPF_STMT (BPF_RET OR BPF_K) SECCOMP_RET_ALLOW)"

definition ExamineSyscall :: "filter_t \<Rightarrow> filter_t" where
  "ExamineSyscall f = push_back f (BPF_STMT (BPF_LD OR BPF_W OR BPF_ABS) syscall_nr)"

text \<open>
  \<^verbatim>\<open>SetValidateArchitectureJumpTarget\<close> returns its \<^verbatim>\<open>int\<close> and the
  vector. The subtraction is the one of \<^verbatim>\<open>size_t\<close>, which wraps; the cast to
  \<^verbatim>\<open>__u8\<close> keeps the low eight bits, and the comparison converts them back to
  \<^verbatim>\<open>size_t\<close>. The assignment \<^verbatim>\<open>f[offset] = ...\<close> past the end of the
  vector is undefined in C++: the model has the result \<open>None\<close> there.
\<close>

definition SetValidateArchitectureJumpTarget :: "size_t \<Rightarrow> filter_t \<Rightarrow> (int \<times> filter_t) option" where
  "SetValidateArchitectureJumpTarget offset f =
     (let jump_length = vsize f - offset - 1;
          u8_jump_length = (ucast jump_length :: 8 word)
      in if (ucast u8_jump_length :: size_t) \<noteq> jump_length then Some (- 1, f)
         else if unat offset < length f then
           Some (0, f[unat offset := BPF_JUMP (BPF_JMP OR BPF_JEQ OR BPF_K) AUDIT_ARCH_ARM u8_jump_length 0])
         else None)"

text \<open>\<^verbatim>\<open>ValidateArchitectureAndJumpIfNeeded\<close> returns its \<^verbatim>\<open>size_t\<close> and the vector.\<close>

definition ValidateArchitectureAndJumpIfNeeded :: "filter_t \<Rightarrow> size_t \<times> filter_t" where
  "ValidateArchitectureAndJumpIfNeeded f0 =
     (let f = push_back f0 (BPF_STMT (BPF_LD OR BPF_W OR BPF_ABS) arch_nr);
          f = push_back f (BPF_JUMP (BPF_JMP OR BPF_JEQ OR BPF_K) AUDIT_ARCH_AARCH64 2 0);
          f = push_back f (BPF_JUMP (BPF_JMP OR BPF_JEQ OR BPF_K) AUDIT_ARCH_ARM 1 0);
          f = Trap f
      in (vsize f - 2, f))"

text \<open>
  \<^verbatim>\<open>install_filter\<close>: the count is cast to \<^verbatim>\<open>unsigned short\<close>; a negative
  result of \<^verbatim>\<open>prctl\<close> is the failure. The second component is the program handed
  to \<^verbatim>\<open>prctl(PR_SET_SECCOMP, SECCOMP_MODE_FILTER, &prog)\<close>.
\<close>

definition install_filter :: "(sock_fprog \<Rightarrow> int) \<Rightarrow> filter_t \<Rightarrow> bool \<times> sock_fprog" where
  "install_filter prctl f =
     (let prog = \<lparr>len = ucast (vsize f), filter_insns = f\<rparr>
      in if prctl prog < 0 then (False, prog) else (True, prog))"

text \<open>The loops \<^verbatim>\<open>for (i = 0; i < size; ++i) f.push_back(table[i])\<close>.\<close>

fun push_all :: "sock_filter list \<Rightarrow> filter_t \<Rightarrow> filter_t" where
  "push_all [] f = f"
| "push_all (x # xs) f = push_all xs (push_back f x)"

text \<open>The conversion of an \<^verbatim>\<open>int\<close> to \<^verbatim>\<open>bool\<close> that a \<^verbatim>\<open>return\<close> in a function of type \<^verbatim>\<open>bool\<close> makes.\<close>

definition bool_of_int :: "int \<Rightarrow> bool" where
  "bool_of_int i = (i \<noteq> 0)"

text \<open>
  \<^verbatim>\<open>set_seccomp_filter\<close> returns its \<^verbatim>\<open>bool\<close> and the program it handed to
  \<^verbatim>\<open>prctl\<close>, \<open>None\<close> when it returned before \<^verbatim>\<open>install_filter\<close>. The
  outer \<open>None\<close> is the undefined write of \<open>SetValidateArchitectureJumpTarget\<close>.
\<close>

definition set_seccomp_filter ::
  "(sock_fprog \<Rightarrow> int) \<Rightarrow> sock_filter list \<Rightarrow> sock_filter list \<Rightarrow> (bool \<times> sock_fprog option) option" where
  "set_seccomp_filter prctl arm64_filter arm_filter =
     (let (offset_to_32bit_filter, f) = ValidateArchitectureAndJumpIfNeeded [];
          f = ExamineSyscall f;
          f = push_all arm64_filter f;
          f = Trap f
      in case SetValidateArchitectureJumpTarget offset_to_32bit_filter f of
           None \<Rightarrow> None
         | Some (rc, f) \<Rightarrow>
             if rc \<noteq> 0 then Some (bool_of_int (- 1), None)
             else
               (let f = ExamineSyscall f;
                    f = push_all arm_filter f;
                    f = Trap f;
                    (ok, prog) = install_filter prctl f
                in Some (ok, Some prog)))"

text \<open>
  \<^verbatim>\<open>Seccomp_setPolicy\<close>. The two flags are the preprocessor's
  \<^verbatim>\<open>defined __arm__\<close> and \<^verbatim>\<open>defined __aarch64__\<close>, which choose between the
  two definitions of the function. The process either exits with a status or the function
  returns, and then the result holds the program handed to \<^verbatim>\<open>prctl\<close>, if any.
\<close>

datatype process = Exits int | Returns "sock_fprog option"

definition Seccomp_setPolicy ::
  "bool \<Rightarrow> bool \<Rightarrow> (sock_fprog \<Rightarrow> int) \<Rightarrow> sock_filter list \<Rightarrow> sock_filter list \<Rightarrow> process option" where
  "Seccomp_setPolicy defined_arm defined_aarch64 prctl arm64_filter arm_filter =
     (if defined_arm \<or> defined_aarch64 then
        (case set_seccomp_filter prctl arm64_filter arm_filter of
           None \<Rightarrow> None
         | Some (ok, prog) \<Rightarrow> if \<not> ok then Some (Exits 1) else Some (Returns prog))
      else Some (Returns None))"

subsection \<open>Simulated evaluation\<close>

text \<open>
  Modelled from the spec: the evaluator of a filter program is not code of this
  repository (the kernel runs the installed program); the spec's "simulated evaluation"
  interprets the bytecode against an architecture tag and a syscall number. The model
  follows the classic BPF machine on the instructions the builder emits and the
  generated policy tables use: an accumulator, a program counter that only moves
  forward, \<^verbatim>\<open>BPF_LD|BPF_W|BPF_ABS\<close> reading \<^verbatim>\<open>seccomp_data\<close> at a byte
  offset, the jumps \<^verbatim>\<open>JA\<close>, \<^verbatim>\<open>JEQ\<close>, \<^verbatim>\<open>JGT\<close>, \<^verbatim>\<open>JGE\<close>,
  \<^verbatim>\<open>JSET\<close> against the constant, relative to the next instruction, and
  \<^verbatim>\<open>BPF_RET|BPF_K\<close>. Evaluation ends with the value of the first return it
  reaches (\<open>Ret\<close>), or leaves the instruction sequence at a program counter with an
  accumulator (\<open>FellOff\<close>), or meets an instruction or a load offset outside this set
  (\<open>Unsupported\<close>).
\<close>

datatype verdict = Ret "32 word" | FellOff nat "32 word" | Unsupported

definition seccomp_load :: "seccomp_data \<Rightarrow> 32 word \<Rightarrow> 32 word option" where
  "seccomp_load d off =
     (if off = syscall_nr then Some (nr d)
      else if off = arch_nr then Some (arch d)
      else None)"

function run :: "sock_filter list \<Rightarrow> seccomp_data \<Rightarrow> nat \<Rightarrow> 32 word \<Rightarrow> verdict" where
  "run prog d pc A =
     (if length prog \<le> pc then FellOff pc A
      else
        (let insn = prog ! pc in
         if code insn = BPF_RET OR BPF_K then Ret (k insn)
         else if code insn = BPF_LD OR BPF_W OR BPF_ABS then
           (case seccomp_load d (k insn) of
              None \<Rightarrow> Unsupported
            | Some v \<Rightarrow> run prog d (pc + 1) v)
         else if code insn = BPF_JMP OR BPF_JA then
           run prog d (pc + 1 + unat (k insn)) A
         else if code insn = BPF_JMP OR BPF_JEQ OR BPF_K then
           run prog d (pc + 1 + unat (if A = k insn then jt insn else jf insn)) A
         else if code insn = BPF_JMP OR BPF_JGT OR BPF_K then
           run prog d (pc + 1 + unat (if k insn < A then jt insn else jf insn)) A
         else if code insn = BPF_JMP OR BPF_JGE OR BPF_K then
           run prog d (pc + 1 + unat (if k insn \<le> A then jt insn else jf insn)) A
         else if code insn = BPF_JMP OR BPF_JSET OR BPF_K then
           run prog d (pc + 1 + unat (if A AND k insn \<noteq> 0 then jt insn else jf insn)) A
         else Unsupported))"
  by pat_completeness auto
termination
  by (relation "measure (\<lambda>(prog, d, pc, A). length prog - pc)") auto

text \<open>The machine starts at the first instruction with the accumulator 0.\<close>

definition run_filter :: "sock_filter list \<Rightarrow> seccomp_data \<Rightarrow> verdict" where
  "run_filter prog d = run prog d 0 0"

declare run.simps [simp del]

section \<open>Auxiliary facts\<close>

lemma push_all_append: "push_all xs f = f @ xs"
  by (induction xs arbitrary: f) (simp_all add: push_back_def)

text \<open>The cast to eight bits and back keeps exactly the values up to 255.\<close>

lemma u8_roundtrip: "((ucast (ucast w :: 8 word) :: size_t) = w) = (unat w \<le> 255)"
proof -
  have "unat (ucast (ucast w :: 8 word) :: size_t) = unat w mod 256"
    by (simp add: unsigned_ucast_eq take_bit_eq_mod unat_mod)
  then show ?thesis
    by (auto simp: word_unat_eq_iff)
qed

text \<open>Where the index lies in the vector and the count fits \<^verbatim>\<open>size_t\<close>, the subtraction does not wrap.\<close>

lemma jump_length_nat:
  assumes "unat offset < length f" and "length f < 2 ^ 64"
  shows "vsize f - offset - 1 = of_nat (length f - unat offset - 1)"
proof -
  have "(of_nat (length f - unat offset - 1) :: size_t)
          = of_nat (length f) - of_nat (unat offset) - of_nat 1"
    using assms(1) by (simp add: of_nat_diff)
  then show ?thesis by (simp add: vsize_def)
qed

lemma unat_jump_length:
  assumes "unat offset < length f" and "length f < 2 ^ 64"
  shows "unat (vsize f - offset - 1) = length f - unat offset - 1"
proof -
  have "length f - unat offset - 1 < 2 ^ 64" using assms by simp
  then have "unat (of_nat (length f - unat offset - 1) :: size_t) = length f - unat offset - 1"
    by (simp add: unat_of_nat)
  then show ?thesis
    by (simp only: jump_length_nat [OF assms])
qed

lemma ucast_of_nat_u8: "(ucast (of_nat n :: size_t) :: 8 word) = of_nat n"
proof -
  have "(256::nat) dvd 18446744073709551616" by simp
  then have "n mod 18446744073709551616 mod 256 = n mod 256"
    by (rule mod_mod_cancel)
  then show ?thesis
    by (simp add: word_unat_eq_iff unsigned_ucast_eq unat_of_nat take_bit_eq_mod)
qed

text \<open>The gate on the empty vector, as \<open>set_seccomp_filter\<close> calls it.\<close>

lemma gate_empty:
  "ValidateArchitectureAndJumpIfNeeded [] =
     (2, [BPF_STMT (BPF_LD OR BPF_W OR BPF_ABS) arch_nr,
          BPF_JUMP (BPF_JMP OR BPF_JEQ OR BPF_K) AUDIT_ARCH_AARCH64 2 0,
          BPF_JUMP (BPF_JMP OR BPF_JEQ OR BPF_K) AUDIT_ARCH_ARM 1 0,
          BPF_STMT (BPF_RET OR BPF_K) SECCOMP_RET_TRAP])"
  by (simp add: ValidateArchitectureAndJumpIfNeeded_def Trap_def push_back_def vsize_def Let_def)

lemma patch_gate:
  "SetValidateArchitectureJumpTarget 2 (a # b # c # rest) =
     (if 255 < unat (vsize (a # b # c # rest) - 2 - 1) then Some (- 1, a # b # c # rest)
      else Some (0, a # b # BPF_JUMP (BPF_JMP OR BPF_JEQ OR BPF_K) AUDIT_ARCH_ARM
                            (ucast (vsize (a # b # c # rest) - 2 - 1)) 0 # rest))"
proof -
  have upd: "(a # b # c # rest)[2 := x] = a # b # x # rest" for x
    by (simp add: numeral_2_eq_2)
  have "unat (2 :: size_t) = 2" by simp
  then show ?thesis
    by (simp add: SetValidateArchitectureJumpTarget_def Let_def u8_roundtrip upd not_le)
qed

lemma vsize_section: "vsize (a # b # c # d # e # xs @ [t]) - 2 - 1 = of_nat (length xs) + 3"
  by (simp add: vsize_def)

text \<open>
  \<open>set_seccomp_filter\<close> in closed form: the early return, or the program handed to
  \<open>install_filter\<close>.
\<close>

lemma set_seccomp_filter_closed:
  "set_seccomp_filter prctl arm64_filter arm_filter =
     (if 255 < unat (of_nat (length arm64_filter) + 3 :: size_t) then Some (True, None)
      else
        (let r = install_filter prctl
               ([BPF_STMT (BPF_LD OR BPF_W OR BPF_ABS) arch_nr,
                 BPF_JUMP (BPF_JMP OR BPF_JEQ OR BPF_K) AUDIT_ARCH_AARCH64 2 0,
                 BPF_JUMP (BPF_JMP OR BPF_JEQ OR BPF_K) AUDIT_ARCH_ARM
                   (ucast (of_nat (length arm64_filter) + 3 :: size_t)) 0,
                 BPF_STMT (BPF_RET OR BPF_K) SECCOMP_RET_TRAP,
                 BPF_STMT (BPF_LD OR BPF_W OR BPF_ABS) syscall_nr]
                @ arm64_filter
                @ [BPF_STMT (BPF_RET OR BPF_K) SECCOMP_RET_TRAP,
                   BPF_STMT (BPF_LD OR BPF_W OR BPF_ABS) syscall_nr]
                @ arm_filter
                @ [BPF_STMT (BPF_RET OR BPF_K) SECCOMP_RET_TRAP])
         in Some (fst r, Some (snd r))))"
  unfolding set_seccomp_filter_def gate_empty
  by (simp add: ExamineSyscall_def Trap_def push_back_def push_all_append patch_gate
      vsize_section bool_of_int_def Let_def split: prod.splits)

text \<open>Facts about the evaluator: embedding of a block, single steps, the gate, a section.\<close>

lemmas opcode_defs = BPF_LD_def BPF_JMP_def BPF_RET_def BPF_W_def BPF_ABS_def BPF_JA_def
  BPF_JEQ_def BPF_JGT_def BPF_JGE_def BPF_JSET_def BPF_K_def

lemma run_embed:
  "run (pre @ blk @ post) d (length pre + pc) A =
     (case run blk d pc A of
        Ret v \<Rightarrow> Ret v
      | FellOff q B \<Rightarrow> run (pre @ blk @ post) d (length pre + q) B
      | Unsupported \<Rightarrow> Unsupported)"
proof (induction blk d pc A rule: run.induct)
  case (1 blk d pc A)
  show ?case
  proof (cases "length blk \<le> pc")
    case True
    then show ?thesis by (simp add: run.simps [of blk])
  next
    case False
    then have nth: "(pre @ blk @ post) ! (length pre + pc) = blk ! pc"
      by (simp add: nth_append)
    from False have len: "\<not> length (pre @ blk @ post) \<le> length pre + pc" by simp
    show ?thesis
      apply (subst run.simps [of "pre @ blk @ post"])
      apply (subst run.simps [of blk])
      using False 1 
      apply (simp only: len nth if_False Let_def)
      apply (simp split: option.splits add: add.assoc)
      done
  qed
qed

lemma run_ret:
  "pc < length prog \<Longrightarrow> prog ! pc = BPF_STMT (BPF_RET OR BPF_K) v \<Longrightarrow> run prog d pc A = Ret v"
  by (subst run.simps) (simp add: BPF_STMT_def)

lemma run_ld_nr:
  "pc < length prog \<Longrightarrow> prog ! pc = BPF_STMT (BPF_LD OR BPF_W OR BPF_ABS) syscall_nr \<Longrightarrow>
   run prog d pc A = run prog d (pc + 1) (nr d)"
  by (subst run.simps) (simp add: BPF_STMT_def opcode_defs seccomp_load_def)

lemma run_ld_arch:
  "pc < length prog \<Longrightarrow> prog ! pc = BPF_STMT (BPF_LD OR BPF_W OR BPF_ABS) arch_nr \<Longrightarrow>
   run prog d pc A = run prog d (pc + 1) (arch d)"
  by (subst run.simps) (simp add: BPF_STMT_def opcode_defs seccomp_load_def syscall_nr_def arch_nr_def)

lemma run_jeq_true:
  "pc < length prog \<Longrightarrow> prog ! pc = BPF_JUMP (BPF_JMP OR BPF_JEQ OR BPF_K) v t e \<Longrightarrow>
   A = v \<Longrightarrow> tgt = pc + 1 + unat t \<Longrightarrow> run prog d pc A = run prog d tgt A"
  by (subst run.simps) (simp add: BPF_JUMP_def opcode_defs)

lemma run_jeq_false:
  "pc < length prog \<Longrightarrow> prog ! pc = BPF_JUMP (BPF_JMP OR BPF_JEQ OR BPF_K) v t e \<Longrightarrow>
   A \<noteq> v \<Longrightarrow> tgt = pc + 1 + unat e \<Longrightarrow> run prog d pc A = run prog d tgt A"
  by (subst run.simps) (simp add: BPF_JUMP_def opcode_defs)

lemma run_gate:
  assumes "prog = BPF_STMT (BPF_LD OR BPF_W OR BPF_ABS) arch_nr
               # BPF_JUMP (BPF_JMP OR BPF_JEQ OR BPF_K) AUDIT_ARCH_AARCH64 2 0
               # BPF_JUMP (BPF_JMP OR BPF_JEQ OR BPF_K) AUDIT_ARCH_ARM t 0
               # BPF_STMT (BPF_RET OR BPF_K) SECCOMP_RET_TRAP # rest"
  shows "run_filter prog d =
           (if arch d = AUDIT_ARCH_AARCH64 then run prog d 4 (arch d)
            else if arch d = AUDIT_ARCH_ARM then run prog d (3 + unat t) (arch d)
            else Ret SECCOMP_RET_TRAP)"
proof -
  have s0: "run prog d 0 0 = run prog d 1 (arch d)"
    using run_ld_arch [of 0 prog d 0] assms by simp
  have s1t: "run prog d 1 (arch d) = run prog d 4 (arch d)" if "arch d = AUDIT_ARCH_AARCH64"
    by (rule run_jeq_true [where v = AUDIT_ARCH_AARCH64 and t = 2 and e = 0])
       (simp_all add: assms that)
  have s1f: "run prog d 1 (arch d) = run prog d 2 (arch d)" if "arch d \<noteq> AUDIT_ARCH_AARCH64"
    by (rule run_jeq_false [where v = AUDIT_ARCH_AARCH64 and t = 2 and e = 0])
       (simp_all add: assms that)
  have s2t: "run prog d 2 (arch d) = run prog d (3 + unat t) (arch d)" if "arch d = AUDIT_ARCH_ARM"
    by (rule run_jeq_true [where v = AUDIT_ARCH_ARM and t = t and e = 0])
       (simp_all add: assms that)
  have s2f: "run prog d 2 (arch d) = run prog d 3 (arch d)" if "arch d \<noteq> AUDIT_ARCH_ARM"
    by (rule run_jeq_false [where v = AUDIT_ARCH_ARM and t = t and e = 0])
       (simp_all add: assms that)
  have s3: "run prog d 3 (arch d) = Ret SECCOMP_RET_TRAP"
    by (rule run_ret) (simp_all add: assms)
  have ne: "AUDIT_ARCH_ARM \<noteq> AUDIT_ARCH_AARCH64"
    by (simp add: AUDIT_ARCH_ARM_def AUDIT_ARCH_AARCH64_def)
  consider (a64) "arch d = AUDIT_ARCH_AARCH64"
    | (arm) "arch d = AUDIT_ARCH_ARM"
    | (other) "arch d \<noteq> AUDIT_ARCH_AARCH64" "arch d \<noteq> AUDIT_ARCH_ARM"
    by blast
  then show ?thesis
  proof cases
    case a64
    have "run_filter prog d = run prog d 4 (arch d)"
      unfolding run_filter_def by (simp only: s0 s1t [OF a64])
    with a64 show ?thesis by simp
  next
    case arm
    with ne have n64: "arch d \<noteq> AUDIT_ARCH_AARCH64" by simp
    have "run_filter prog d = run prog d (3 + unat t) (arch d)"
      unfolding run_filter_def by (simp only: s0 s1f [OF n64] s2t [OF arm])
    with arm n64 show ?thesis by simp
  next
    case other
    have "run_filter prog d = Ret SECCOMP_RET_TRAP"
      unfolding run_filter_def by (simp only: s0 s1f [OF other(1)] s2f [OF other(2)] s3)
    with other show ?thesis by simp
  qed
qed


lemma run_section:
  assumes P: "P = pre @ BPF_STMT (BPF_LD OR BPF_W OR BPF_ABS) syscall_nr # blk
                  @ BPF_STMT (BPF_RET OR BPF_K) SECCOMP_RET_TRAP # post"
  shows "run P d (length pre) A =
           (case run blk d 0 (nr d) of
              Ret v \<Rightarrow> Ret v
            | FellOff q B \<Rightarrow>
                if q = length blk then Ret SECCOMP_RET_TRAP else run P d (length pre + 1 + q) B
            | Unsupported \<Rightarrow> Unsupported)"
proof -
  let ?L = "BPF_STMT (BPF_LD OR BPF_W OR BPF_ABS) syscall_nr"
  let ?T = "BPF_STMT (BPF_RET OR BPF_K) SECCOMP_RET_TRAP"
  have P': "P = (pre @ [?L]) @ blk @ (?T # post)"
    by (simp add: P)
  have load: "run P d (length pre) A = run P d (Suc (length pre)) (nr d)"
    using run_ld_nr [of "length pre" P d A] by (simp add: P)
  have emb: "run P d (length (pre @ [?L]) + 0) (nr d) =
               (case run blk d 0 (nr d) of
                  Ret v \<Rightarrow> Ret v
                | FellOff q B \<Rightarrow> run P d (length (pre @ [?L]) + q) B
                | Unsupported \<Rightarrow> Unsupported)"
    unfolding P' by (rule run_embed)
  have trap: "run P d (Suc (length pre + length blk)) B = Ret SECCOMP_RET_TRAP" for B
    by (rule run_ret) (simp_all add: P nth_append)
  show ?thesis
    using emb by (simp add: load trap split: verdict.splits)
qed

lemma run_built:
  assumes P: "P = [BPF_STMT (BPF_LD OR BPF_W OR BPF_ABS) arch_nr,
                   BPF_JUMP (BPF_JMP OR BPF_JEQ OR BPF_K) AUDIT_ARCH_AARCH64 2 0,
                   BPF_JUMP (BPF_JMP OR BPF_JEQ OR BPF_K) AUDIT_ARCH_ARM t 0,
                   BPF_STMT (BPF_RET OR BPF_K) SECCOMP_RET_TRAP,
                   BPF_STMT (BPF_LD OR BPF_W OR BPF_ABS) syscall_nr]
                  @ a64
                  @ [BPF_STMT (BPF_RET OR BPF_K) SECCOMP_RET_TRAP,
                     BPF_STMT (BPF_LD OR BPF_W OR BPF_ABS) syscall_nr]
                  @ a32
                  @ [BPF_STMT (BPF_RET OR BPF_K) SECCOMP_RET_TRAP]"
    and t: "unat t = length a64 + 3"
  shows "run_filter P d =
           (if arch d = AUDIT_ARCH_AARCH64 then
              (case run a64 d 0 (nr d) of
                 Ret v \<Rightarrow> Ret v
               | FellOff q B \<Rightarrow>
                   if q = length a64 then Ret SECCOMP_RET_TRAP else run P d (5 + q) B
               | Unsupported \<Rightarrow> Unsupported)
            else if arch d = AUDIT_ARCH_ARM then
              (case run a32 d 0 (nr d) of
                 Ret v \<Rightarrow> Ret v
               | FellOff q B \<Rightarrow>
                   if q = length a32 then Ret SECCOMP_RET_TRAP
                   else run P d (length a64 + 7 + q) B
               | Unsupported \<Rightarrow> Unsupported)
            else Ret SECCOMP_RET_TRAP)"
proof -
  let ?A = "BPF_STMT (BPF_LD OR BPF_W OR BPF_ABS) arch_nr"
  let ?J64 = "BPF_JUMP (BPF_JMP OR BPF_JEQ OR BPF_K) AUDIT_ARCH_AARCH64 2 0"
  let ?J32 = "BPF_JUMP (BPF_JMP OR BPF_JEQ OR BPF_K) AUDIT_ARCH_ARM t 0"
  let ?L = "BPF_STMT (BPF_LD OR BPF_W OR BPF_ABS) syscall_nr"
  let ?T = "BPF_STMT (BPF_RET OR BPF_K) SECCOMP_RET_TRAP"
  have gate: "run_filter P d =
           (if arch d = AUDIT_ARCH_AARCH64 then run P d 4 (arch d)
            else if arch d = AUDIT_ARCH_ARM then run P d (3 + unat t) (arch d)
            else Ret SECCOMP_RET_TRAP)"
    by (rule run_gate) (simp add: P)
  have s64: "run P d (length [?A, ?J64, ?J32, ?T]) A =
           (case run a64 d 0 (nr d) of
              Ret v \<Rightarrow> Ret v
            | FellOff q B \<Rightarrow>
                if q = length a64 then Ret SECCOMP_RET_TRAP
                else run P d (length [?A, ?J64, ?J32, ?T] + 1 + q) B
            | Unsupported \<Rightarrow> Unsupported)" for A
    by (rule run_section) (simp add: P)
  have s32: "run P d (length ([?A, ?J64, ?J32, ?T, ?L] @ a64 @ [?T])) A =
           (case run a32 d 0 (nr d) of
              Ret v \<Rightarrow> Ret v
            | FellOff q B \<Rightarrow>
                if q = length a32 then Ret SECCOMP_RET_TRAP
                else run P d (length ([?A, ?J64, ?J32, ?T, ?L] @ a64 @ [?T]) + 1 + q) B
            | Unsupported \<Rightarrow> Unsupported)" for A
    by (rule run_section) (simp add: P)
  have l64: "length [?A, ?J64, ?J32, ?T] = 4" by simp
  have l32: "length ([?A, ?J64, ?J32, ?T, ?L] @ a64 @ [?T]) = 3 + unat t"
    by (simp add: t)
  have a1: "4 + 1 + q = 5 + q" for q :: nat by simp
  have a2: "3 + unat t + 1 + q = length a64 + 7 + q" for q :: nat by (simp add: t)
  show ?thesis
    using s64 s32 unfolding l64 l32 a1 a2 by (simp add: gate)
qed

section \<open>The jump patcher\<close>

text \<open>
  Claim C2. For a patch index inside the vector, \<open>SetValidateArchitectureJumpTarget\<close>
  works with the distance \<open>length f - index - 1\<close>: the \<^verbatim>\<open>size_t\<close> value it computes
  is that number; it returns \<open>-1\<close> exactly when the distance is above 255 and then leaves
  the vector as it was; otherwise it returns 0 and puts at the index the branch-equal
  on \<^verbatim>\<open>AUDIT_ARCH_ARM\<close> whose true offset is the distance, not truncated, and whose
  false offset is 0.
\<close>

theorem SetValidateArchitectureJumpTarget_distance:
  assumes "unat offset < length f" and "length f < 2 ^ 64"
  shows "unat (vsize f - offset - 1) = length f - unat offset - 1
       \<and> SetValidateArchitectureJumpTarget offset f =
           (if 255 < length f - unat offset - 1 then Some (- 1, f)
            else Some (0, f[unat offset :=
                     BPF_JUMP (BPF_JMP OR BPF_JEQ OR BPF_K) AUDIT_ARCH_ARM
                       (of_nat (length f - unat offset - 1)) 0]))
       \<and> (map_option fst (SetValidateArchitectureJumpTarget offset f) = Some (- 1))
           = (255 < length f - unat offset - 1)
       \<and> (length f - unat offset - 1 \<le> 255 \<longrightarrow>
            unat (of_nat (length f - unat offset - 1) :: 8 word) = length f - unat offset - 1)"
proof -
  let ?n = "length f - unat offset - 1"
  have dist: "unat (vsize f - offset - 1) = ?n"
    by (rule unat_jump_length [OF assms])
  have cast: "(ucast (vsize f - offset - 1) :: 8 word) = of_nat ?n"
    by (simp only: jump_length_nat [OF assms] ucast_of_nat_u8)
  have res: "SetValidateArchitectureJumpTarget offset f =
           (if 255 < ?n then Some (- 1, f)
            else Some (0, f[unat offset :=
                     BPF_JUMP (BPF_JMP OR BPF_JEQ OR BPF_K) AUDIT_ARCH_ARM (of_nat ?n) 0]))"
    using assms(1) dist cast
    by (simp add: SetValidateArchitectureJumpTarget_def Let_def u8_roundtrip not_le)
  have exact: "unat (of_nat ?n :: 8 word) = ?n" if "?n \<le> 255"
    using that by (simp add: unat_of_nat)
  have iff: "(map_option fst (SetValidateArchitectureJumpTarget offset f) = Some (- 1)) = (255 < ?n)"
    by (simp add: res)
  from dist res iff exact show ?thesis by blast
qed

theorem SetValidateArchitectureJumpTarget_distance_witness:
  "unat (2 :: size_t) < length (replicate 6 (BPF_STMT (BPF_RET OR BPF_K) SECCOMP_RET_TRAP))
   \<and> length (replicate 6 (BPF_STMT (BPF_RET OR BPF_K) SECCOMP_RET_TRAP)) < 2 ^ 64
   \<and> map_option fst (SetValidateArchitectureJumpTarget 2
        (replicate 6 (BPF_STMT (BPF_RET OR BPF_K) SECCOMP_RET_TRAP))) = Some 0
   \<and> unat (vsize (replicate 6 (BPF_STMT (BPF_RET OR BPF_K) SECCOMP_RET_TRAP)) - 2 - 1) = 3"
  using SetValidateArchitectureJumpTarget_distance
    [of 2 "replicate 6 (BPF_STMT (BPF_RET OR BPF_K) SECCOMP_RET_TRAP)"]
  by simp

text \<open>
  Claim C10. Whenever \<open>SetValidateArchitectureJumpTarget\<close> returns, the vector has the
  length it had and every instruction at an index other than the patch index is the
  one it was; when the distance is above 255, and whenever the result is not 0, the
  whole vector is unchanged.
\<close>

theorem SetValidateArchitectureJumpTarget_frame:
  assumes "SetValidateArchitectureJumpTarget offset f = Some (rc, f')"
  shows "length f' = length f
       \<and> (\<forall>i. i \<noteq> unat offset \<longrightarrow> f' ! i = f ! i)
       \<and> (255 < unat (vsize f - offset - 1) \<longrightarrow> rc = - 1 \<and> f' = f)
       \<and> (rc \<noteq> 0 \<longrightarrow> f' = f)"
  using assms
  by (auto simp: SetValidateArchitectureJumpTarget_def Let_def u8_roundtrip split: if_splits)

theorem SetValidateArchitectureJumpTarget_frame_witness:
  "SetValidateArchitectureJumpTarget 2
     (replicate 6 (BPF_STMT (BPF_RET OR BPF_K) SECCOMP_RET_TRAP))
   = Some (0, (replicate 6 (BPF_STMT (BPF_RET OR BPF_K) SECCOMP_RET_TRAP))
                [2 := BPF_JUMP (BPF_JMP OR BPF_JEQ OR BPF_K) AUDIT_ARCH_ARM 3 0])
   \<and> length ((replicate 6 (BPF_STMT (BPF_RET OR BPF_K) SECCOMP_RET_TRAP))
                [2 := BPF_JUMP (BPF_JMP OR BPF_JEQ OR BPF_K) AUDIT_ARCH_ARM 3 0]) = 6"
proof -
  have r: "SetValidateArchitectureJumpTarget 2
     (replicate 6 (BPF_STMT (BPF_RET OR BPF_K) SECCOMP_RET_TRAP))
   = Some (0, (replicate 6 (BPF_STMT (BPF_RET OR BPF_K) SECCOMP_RET_TRAP))
                [2 := BPF_JUMP (BPF_JMP OR BPF_JEQ OR BPF_K) AUDIT_ARCH_ARM 3 0])"
    by (simp add: SetValidateArchitectureJumpTarget_def Let_def vsize_def)
  from SetValidateArchitectureJumpTarget_frame [OF r] r show ?thesis by simp
qed

section \<open>The architecture gate\<close>

text \<open>
  Claim C3, as amended. \<open>ValidateArchitectureAndJumpIfNeeded\<close> appends exactly four
  instructions, in this order: the load of the architecture; the branch-equal on
  \<^verbatim>\<open>AUDIT_ARCH_AARCH64\<close> with the fixed true offset 2, which skips the two
  instructions that follow it; the branch-equal on \<^verbatim>\<open>AUDIT_ARCH_ARM\<close> with the
  placeholder true offset 1; the trap. It returns the index of the branch on
  \<^verbatim>\<open>AUDIT_ARCH_ARM\<close>, which is 2 on the empty vector.
\<close>

theorem ValidateArchitectureAndJumpIfNeeded_emits:
  "ValidateArchitectureAndJumpIfNeeded f =
     (of_nat (length f) + 2,
      f @ [BPF_STMT (BPF_LD OR BPF_W OR BPF_ABS) arch_nr,
           BPF_JUMP (BPF_JMP OR BPF_JEQ OR BPF_K) AUDIT_ARCH_AARCH64 2 0,
           BPF_JUMP (BPF_JMP OR BPF_JEQ OR BPF_K) AUDIT_ARCH_ARM 1 0,
           BPF_STMT (BPF_RET OR BPF_K) SECCOMP_RET_TRAP])
   \<and> snd (ValidateArchitectureAndJumpIfNeeded f) ! (length f + 2)
       = BPF_JUMP (BPF_JMP OR BPF_JEQ OR BPF_K) AUDIT_ARCH_ARM 1 0
   \<and> fst (ValidateArchitectureAndJumpIfNeeded []) = 2"
  by (simp add: ValidateArchitectureAndJumpIfNeeded_def Trap_def push_back_def vsize_def Let_def
      nth_append)

text \<open>
  The claim as it was stated has the branch on the 64-bit tag skip exactly one
  instruction. Its true offset is 2: under the 64-bit tag, evaluation of the gate passes
  over the branch at index 2 and the trap at index 3 and leaves the gate at index 4.
\<close>

theorem ValidateArchitectureAndJumpIfNeeded_skips_two:
  "jt (snd (ValidateArchitectureAndJumpIfNeeded []) ! 1) = 2
   \<and> jt (snd (ValidateArchitectureAndJumpIfNeeded []) ! 1) \<noteq> 1
   \<and> run_filter (snd (ValidateArchitectureAndJumpIfNeeded []))
        \<lparr>nr = 0, arch = AUDIT_ARCH_AARCH64\<rparr> = FellOff 4 AUDIT_ARCH_AARCH64"
  by (simp add: gate_empty run_filter_def run.simps BPF_STMT_def BPF_JUMP_def opcode_defs
      seccomp_load_def syscall_nr_def arch_nr_def AUDIT_ARCH_AARCH64_def)

section \<open>The entry point\<close>

text \<open>
  Claim C9. Compiled for an architecture that defines neither \<^verbatim>\<open>__arm__\<close> nor
  \<^verbatim>\<open>__aarch64__\<close>, \<open>Seccomp_setPolicy\<close> returns normally whatever the tables and
  the kernel are, and hands no program to \<^verbatim>\<open>prctl\<close>.
\<close>

theorem Seccomp_setPolicy_other_architecture:
  "Seccomp_setPolicy False False prctl arm64_filter arm_filter = Some (Returns None)"
  by (simp add: Seccomp_setPolicy_def)

text \<open>
  Claim C1, evaluated where the code departs from it. With an \<^verbatim>\<open>arm64_filter\<close> of
  300 instructions the patcher returns \<open>-1\<close>; \<open>set_seccomp_filter\<close> then executes
  \<^verbatim>\<open>return -1\<close> in a function of type \<^verbatim>\<open>bool\<close>, so its caller receives
  \<open>True\<close>; \<open>Seccomp_setPolicy\<close> returns normally, and no program was handed to
  \<^verbatim>\<open>prctl\<close>.
\<close>

theorem set_seccomp_filter_long_arm64_filter:
  "SetValidateArchitectureJumpTarget (fst (ValidateArchitectureAndJumpIfNeeded []))
      (Trap (push_all (replicate 300 (BPF_STMT (BPF_RET OR BPF_K) SECCOMP_RET_ALLOW))
         (ExamineSyscall (snd (ValidateArchitectureAndJumpIfNeeded [])))))
    = Some (- 1, Trap (push_all (replicate 300 (BPF_STMT (BPF_RET OR BPF_K) SECCOMP_RET_ALLOW))
         (ExamineSyscall (snd (ValidateArchitectureAndJumpIfNeeded [])))))
   \<and> set_seccomp_filter prctl (replicate 300 (BPF_STMT (BPF_RET OR BPF_K) SECCOMP_RET_ALLOW)) arm_filter
       = Some (True, None)
   \<and> Seccomp_setPolicy False True prctl
        (replicate 300 (BPF_STMT (BPF_RET OR BPF_K) SECCOMP_RET_ALLOW)) arm_filter
       = Some (Returns None)"
  by (simp add: gate_empty ExamineSyscall_def Trap_def push_back_def push_all_append patch_gate
      vsize_section set_seccomp_filter_closed Seccomp_setPolicy_def)

text \<open>
  The other failure does end the process: when the jump fits and the kernel rejects the
  program, \<open>install_filter\<close> returns \<open>False\<close> and \<open>Seccomp_setPolicy\<close> exits with
  status 1.
\<close>

lemma Seccomp_setPolicy_install_failure:
  assumes "length arm64_filter \<le> 252" and "\<forall>p. prctl p < 0"
    and "defined_arm \<or> defined_aarch64"
  shows "Seccomp_setPolicy defined_arm defined_aarch64 prctl arm64_filter arm_filter = Some (Exits 1)"
proof -
  have "length arm64_filter + 3 < 2 ^ 64" using assms(1) by simp
  then have "unat (of_nat (length arm64_filter + 3) :: size_t) = length arm64_filter + 3"
    by (subst unat_of_nat) simp
  then have "unat (of_nat (length arm64_filter) + 3 :: size_t) = length arm64_filter + 3"
    by simp
  with assms show ?thesis
    by (simp add: Seccomp_setPolicy_def set_seccomp_filter_closed install_filter_def Let_def)
qed

section \<open>The program that is built\<close>

text \<open>
  Claim C8. What \<open>set_seccomp_filter\<close> hands to \<^verbatim>\<open>prctl\<close> is the same for any
  two runs on the same two tables, whatever the kernel answers; the instruction
  sequence is the five instructions of the prologue, the 64-bit table, a trap, the load
  of the syscall number, the 32-bit table and a trap, with nothing else in between.
\<close>

theorem set_seccomp_filter_deterministic:
  "map_option snd (set_seccomp_filter prctl arm64_filter arm_filter)
     = map_option snd (set_seccomp_filter prctl' arm64_filter arm_filter)
   \<and> map_option (map_option filter_insns \<circ> snd) (set_seccomp_filter prctl arm64_filter arm_filter)
     = Some (if 255 < unat (of_nat (length arm64_filter) + 3 :: size_t) then None
             else Some ([BPF_STMT (BPF_LD OR BPF_W OR BPF_ABS) arch_nr,
                 BPF_JUMP (BPF_JMP OR BPF_JEQ OR BPF_K) AUDIT_ARCH_AARCH64 2 0,
                 BPF_JUMP (BPF_JMP OR BPF_JEQ OR BPF_K) AUDIT_ARCH_ARM
                   (ucast (of_nat (length arm64_filter) + 3 :: size_t)) 0,
                 BPF_STMT (BPF_RET OR BPF_K) SECCOMP_RET_TRAP,
                 BPF_STMT (BPF_LD OR BPF_W OR BPF_ABS) syscall_nr]
                @ arm64_filter
                @ [BPF_STMT (BPF_RET OR BPF_K) SECCOMP_RET_TRAP,
                   BPF_STMT (BPF_LD OR BPF_W OR BPF_ABS) syscall_nr]
                @ arm_filter
                @ [BPF_STMT (BPF_RET OR BPF_K) SECCOMP_RET_TRAP]))"
  by (auto simp: set_seccomp_filter_closed install_filter_def Let_def)

section \<open>Evaluation of the program that is built\<close>

lemma built_gate:
  assumes "set_seccomp_filter prctl arm64_filter arm_filter = Some (ok, Some prog)"
  shows "\<exists>t rest. filter_insns prog =
           BPF_STMT (BPF_LD OR BPF_W OR BPF_ABS) arch_nr
         # BPF_JUMP (BPF_JMP OR BPF_JEQ OR BPF_K) AUDIT_ARCH_AARCH64 2 0
         # BPF_JUMP (BPF_JMP OR BPF_JEQ OR BPF_K) AUDIT_ARCH_ARM t 0
         # BPF_STMT (BPF_RET OR BPF_K) SECCOMP_RET_TRAP # rest"
  using assms
  by (auto simp: set_seccomp_filter_closed install_filter_def Let_def split: if_splits)

lemma filter_insns_install: "filter_insns (snd (install_filter prctl f)) = f"
  by (simp add: install_filter_def Let_def)

lemma built_program:
  assumes "set_seccomp_filter prctl arm64_filter arm_filter = Some (ok, Some prog)"
    and "length arm64_filter + 6 < 2 ^ 64"
  shows "filter_insns prog =
           [BPF_STMT (BPF_LD OR BPF_W OR BPF_ABS) arch_nr,
            BPF_JUMP (BPF_JMP OR BPF_JEQ OR BPF_K) AUDIT_ARCH_AARCH64 2 0,
            BPF_JUMP (BPF_JMP OR BPF_JEQ OR BPF_K) AUDIT_ARCH_ARM
              (of_nat (length arm64_filter + 3)) 0,
            BPF_STMT (BPF_RET OR BPF_K) SECCOMP_RET_TRAP,
            BPF_STMT (BPF_LD OR BPF_W OR BPF_ABS) syscall_nr]
           @ arm64_filter
           @ [BPF_STMT (BPF_RET OR BPF_K) SECCOMP_RET_TRAP,
              BPF_STMT (BPF_LD OR BPF_W OR BPF_ABS) syscall_nr]
           @ arm_filter
           @ [BPF_STMT (BPF_RET OR BPF_K) SECCOMP_RET_TRAP]
       \<and> unat (of_nat (length arm64_filter + 3) :: 8 word) = length arm64_filter + 3"
proof -
  let ?n = "length arm64_filter"
  have w: "(of_nat ?n + 3 :: size_t) = of_nat (?n + 3)" by simp
  have "?n + 3 < 2 ^ 64" using assms(2) by simp
  then have "unat (of_nat (?n + 3) :: size_t) = ?n + 3"
    by (subst unat_of_nat) simp
  then have u: "unat (of_nat ?n + 3 :: size_t) = ?n + 3"
    by (simp only: w)
  have c: "(ucast (of_nat ?n + 3 :: size_t) :: 8 word) = of_nat (?n + 3)"
    unfolding w by (rule ucast_of_nat_u8)
  from assms(1) have small: "\<not> 255 < ?n + 3"
    by (auto simp: set_seccomp_filter_closed u split: if_splits)
  then have exact: "unat (of_nat (?n + 3) :: 8 word) = ?n + 3"
    by (subst unat_of_nat) simp
  have ok: "\<not> 255 < unat (of_nat ?n + 3 :: size_t)"
    unfolding u by (rule small)
  have "prog = snd (install_filter prctl
           ([BPF_STMT (BPF_LD OR BPF_W OR BPF_ABS) arch_nr,
            BPF_JUMP (BPF_JMP OR BPF_JEQ OR BPF_K) AUDIT_ARCH_AARCH64 2 0,
            BPF_JUMP (BPF_JMP OR BPF_JEQ OR BPF_K) AUDIT_ARCH_ARM
              (ucast (of_nat ?n + 3 :: size_t)) 0,
            BPF_STMT (BPF_RET OR BPF_K) SECCOMP_RET_TRAP,
            BPF_STMT (BPF_LD OR BPF_W OR BPF_ABS) syscall_nr]
           @ arm64_filter
           @ [BPF_STMT (BPF_RET OR BPF_K) SECCOMP_RET_TRAP,
              BPF_STMT (BPF_LD OR BPF_W OR BPF_ABS) syscall_nr]
           @ arm_filter
           @ [BPF_STMT (BPF_RET OR BPF_K) SECCOMP_RET_TRAP]))"
    using assms(1) unfolding set_seccomp_filter_closed Let_def
    by (simp only: ok if_False option.inject prod.inject)
  then have "filter_insns prog =
           [BPF_STMT (BPF_LD OR BPF_W OR BPF_ABS) arch_nr,
            BPF_JUMP (BPF_JMP OR BPF_JEQ OR BPF_K) AUDIT_ARCH_AARCH64 2 0,
            BPF_JUMP (BPF_JMP OR BPF_JEQ OR BPF_K) AUDIT_ARCH_ARM
              (ucast (of_nat ?n + 3 :: size_t)) 0,
            BPF_STMT (BPF_RET OR BPF_K) SECCOMP_RET_TRAP,
            BPF_STMT (BPF_LD OR BPF_W OR BPF_ABS) syscall_nr]
           @ arm64_filter
           @ [BPF_STMT (BPF_RET OR BPF_K) SECCOMP_RET_TRAP,
              BPF_STMT (BPF_LD OR BPF_W OR BPF_ABS) syscall_nr]
           @ arm_filter
           @ [BPF_STMT (BPF_RET OR BPF_K) SECCOMP_RET_TRAP]"
    by (simp only: filter_insns_install)
  then show ?thesis
    unfolding c using exact by (rule conjI)
qed

text \<open>
  A build used at concrete inputs: the 64-bit table allows syscall 5 and nothing else,
  the 32-bit table is empty, the kernel accepts the program.
\<close>

lemma example_build:
  "set_seccomp_filter (\<lambda>_. 0)
        [BPF_JUMP (BPF_JMP OR BPF_JEQ OR BPF_K) 5 0 1,
         BPF_STMT (BPF_RET OR BPF_K) SECCOMP_RET_ALLOW] []
     = Some (True, Some \<lparr>len = 10, filter_insns =
         [BPF_STMT (BPF_LD OR BPF_W OR BPF_ABS) arch_nr,
          BPF_JUMP (BPF_JMP OR BPF_JEQ OR BPF_K) AUDIT_ARCH_AARCH64 2 0,
          BPF_JUMP (BPF_JMP OR BPF_JEQ OR BPF_K) AUDIT_ARCH_ARM 5 0,
          BPF_STMT (BPF_RET OR BPF_K) SECCOMP_RET_TRAP,
          BPF_STMT (BPF_LD OR BPF_W OR BPF_ABS) syscall_nr,
          BPF_JUMP (BPF_JMP OR BPF_JEQ OR BPF_K) 5 0 1,
          BPF_STMT (BPF_RET OR BPF_K) SECCOMP_RET_ALLOW,
          BPF_STMT (BPF_RET OR BPF_K) SECCOMP_RET_TRAP,
          BPF_STMT (BPF_LD OR BPF_W OR BPF_ABS) syscall_nr,
          BPF_STMT (BPF_RET OR BPF_K) SECCOMP_RET_TRAP]\<rparr>)"
  by (simp add: set_seccomp_filter_closed install_filter_def vsize_def)


text \<open>
  Claim C4. For every program that \<open>set_seccomp_filter\<close> hands to \<^verbatim>\<open>prctl\<close>,
  whatever the two tables hold, and for every architecture tag other than
  \<^verbatim>\<open>AUDIT_ARCH_AARCH64\<close> and \<^verbatim>\<open>AUDIT_ARCH_ARM\<close> and every syscall number,
  evaluation returns \<^verbatim>\<open>SECCOMP_RET_TRAP\<close>.
\<close>

theorem other_architecture_traps:
  assumes "set_seccomp_filter prctl arm64_filter arm_filter = Some (ok, Some prog)"
    and "arch d \<noteq> AUDIT_ARCH_AARCH64" and "arch d \<noteq> AUDIT_ARCH_ARM"
  shows "run_filter (filter_insns prog) d = Ret SECCOMP_RET_TRAP"
proof -
  from built_gate [OF assms(1)] obtain t rest where
    "filter_insns prog =
           BPF_STMT (BPF_LD OR BPF_W OR BPF_ABS) arch_nr
         # BPF_JUMP (BPF_JMP OR BPF_JEQ OR BPF_K) AUDIT_ARCH_AARCH64 2 0
         # BPF_JUMP (BPF_JMP OR BPF_JEQ OR BPF_K) AUDIT_ARCH_ARM t 0
         # BPF_STMT (BPF_RET OR BPF_K) SECCOMP_RET_TRAP # rest"
    by blast
  from run_gate [OF this, of d] assms(2,3) show ?thesis by simp
qed

theorem other_architecture_traps_witness:
  "set_seccomp_filter (\<lambda>_. 0)
        [BPF_JUMP (BPF_JMP OR BPF_JEQ OR BPF_K) 5 0 1,
         BPF_STMT (BPF_RET OR BPF_K) SECCOMP_RET_ALLOW] []
     = Some (True, Some \<lparr>len = 10, filter_insns =
         [BPF_STMT (BPF_LD OR BPF_W OR BPF_ABS) arch_nr,
          BPF_JUMP (BPF_JMP OR BPF_JEQ OR BPF_K) AUDIT_ARCH_AARCH64 2 0,
          BPF_JUMP (BPF_JMP OR BPF_JEQ OR BPF_K) AUDIT_ARCH_ARM 5 0,
          BPF_STMT (BPF_RET OR BPF_K) SECCOMP_RET_TRAP,
          BPF_STMT (BPF_LD OR BPF_W OR BPF_ABS) syscall_nr,
          BPF_JUMP (BPF_JMP OR BPF_JEQ OR BPF_K) 5 0 1,
          BPF_STMT (BPF_RET OR BPF_K) SECCOMP_RET_ALLOW,
          BPF_STMT (BPF_RET OR BPF_K) SECCOMP_RET_TRAP,
          BPF_STMT (BPF_LD OR BPF_W OR BPF_ABS) syscall_nr,
          BPF_STMT (BPF_RET OR BPF_K) SECCOMP_RET_TRAP]\<rparr>)
   \<and> arch \<lparr>nr = 5, arch = 0xC000003E\<rparr> \<noteq> AUDIT_ARCH_AARCH64
   \<and> arch \<lparr>nr = 5, arch = 0xC000003E\<rparr> \<noteq> AUDIT_ARCH_ARM
   \<and> run_filter
         [BPF_STMT (BPF_LD OR BPF_W OR BPF_ABS) arch_nr,
          BPF_JUMP (BPF_JMP OR BPF_JEQ OR BPF_K) AUDIT_ARCH_AARCH64 2 0,
          BPF_JUMP (BPF_JMP OR BPF_JEQ OR BPF_K) AUDIT_ARCH_ARM 5 0,
          BPF_STMT (BPF_RET OR BPF_K) SECCOMP_RET_TRAP,
          BPF_STMT (BPF_LD OR BPF_W OR BPF_ABS) syscall_nr,
          BPF_JUMP (BPF_JMP OR BPF_JEQ OR BPF_K) 5 0 1,
          BPF_STMT (BPF_RET OR BPF_K) SECCOMP_RET_ALLOW,
          BPF_STMT (BPF_RET OR BPF_K) SECCOMP_RET_TRAP,
          BPF_STMT (BPF_LD OR BPF_W OR BPF_ABS) syscall_nr,
          BPF_STMT (BPF_RET OR BPF_K) SECCOMP_RET_TRAP]
         \<lparr>nr = 5, arch = 0xC000003E\<rparr> = Ret SECCOMP_RET_TRAP"
proof -
  have h1: "arch \<lparr>nr = 5, arch = 0xC000003E\<rparr> \<noteq> AUDIT_ARCH_AARCH64"
    by (simp add: AUDIT_ARCH_AARCH64_def)
  have h2: "arch \<lparr>nr = 5, arch = 0xC000003E\<rparr> \<noteq> AUDIT_ARCH_ARM"
    by (simp add: AUDIT_ARCH_ARM_def)
  from other_architecture_traps [OF example_build h1 h2] example_build h1 h2 show ?thesis
    by (simp only: sock_fprog.select_convs simp_thms)
qed


text \<open>
  Claim C5. The program built holds each table verbatim and in order at the position
  the vector had reached (index 5 for the 64-bit table, right after the second load for
  the 32-bit table), and exactly one trap right after each table. Hence, under the tag
  of an architecture, when the table of that architecture evaluated on its own from the
  loaded syscall number leaves at its end (the syscall is not on the allow-list),
  evaluation of the program returns \<^verbatim>\<open>SECCOMP_RET_TRAP\<close>. The count of
  instructions is taken to fit \<^verbatim>\<open>size_t\<close>, as the count of a vector does.
\<close>

theorem policy_block_embedded_and_capped:
  assumes "set_seccomp_filter prctl arm64_filter arm_filter = Some (ok, Some prog)"
    and "length arm64_filter + 6 < 2 ^ 64"
  shows "filter_insns prog =
           [BPF_STMT (BPF_LD OR BPF_W OR BPF_ABS) arch_nr,
            BPF_JUMP (BPF_JMP OR BPF_JEQ OR BPF_K) AUDIT_ARCH_AARCH64 2 0,
            BPF_JUMP (BPF_JMP OR BPF_JEQ OR BPF_K) AUDIT_ARCH_ARM
              (of_nat (length arm64_filter + 3)) 0,
            BPF_STMT (BPF_RET OR BPF_K) SECCOMP_RET_TRAP,
            BPF_STMT (BPF_LD OR BPF_W OR BPF_ABS) syscall_nr]
           @ arm64_filter
           @ [BPF_STMT (BPF_RET OR BPF_K) SECCOMP_RET_TRAP,
              BPF_STMT (BPF_LD OR BPF_W OR BPF_ABS) syscall_nr]
           @ arm_filter
           @ [BPF_STMT (BPF_RET OR BPF_K) SECCOMP_RET_TRAP]
       \<and> (arch d = AUDIT_ARCH_AARCH64 \<and> run arm64_filter d 0 (nr d) = FellOff (length arm64_filter) B
            \<longrightarrow> run_filter (filter_insns prog) d = Ret SECCOMP_RET_TRAP)
       \<and> (arch d = AUDIT_ARCH_ARM \<and> run arm_filter d 0 (nr d) = FellOff (length arm_filter) B
            \<longrightarrow> run_filter (filter_insns prog) d = Ret SECCOMP_RET_TRAP)"
proof -
  note bp = built_program [OF assms]
  have ne: "AUDIT_ARCH_ARM \<noteq> AUDIT_ARCH_AARCH64"
    by (simp add: AUDIT_ARCH_ARM_def AUDIT_ARCH_AARCH64_def)
  note rb = run_built [OF conjunct1 [OF bp] conjunct2 [OF bp], of d]
  have a: "run_filter (filter_insns prog) d = Ret SECCOMP_RET_TRAP"
    if "arch d = AUDIT_ARCH_AARCH64" "run arm64_filter d 0 (nr d) = FellOff (length arm64_filter) B"
    using rb that by simp
  have b: "run_filter (filter_insns prog) d = Ret SECCOMP_RET_TRAP"
    if "arch d = AUDIT_ARCH_ARM" "run arm_filter d 0 (nr d) = FellOff (length arm_filter) B"
    using rb that ne by simp
  from bp a b show ?thesis by blast
qed


theorem policy_block_embedded_and_capped_witness:
  "set_seccomp_filter (\<lambda>_. 0)
        [BPF_JUMP (BPF_JMP OR BPF_JEQ OR BPF_K) 5 0 1,
         BPF_STMT (BPF_RET OR BPF_K) SECCOMP_RET_ALLOW] []
     = Some (True, Some \<lparr>len = 10, filter_insns =
         [BPF_STMT (BPF_LD OR BPF_W OR BPF_ABS) arch_nr,
          BPF_JUMP (BPF_JMP OR BPF_JEQ OR BPF_K) AUDIT_ARCH_AARCH64 2 0,
          BPF_JUMP (BPF_JMP OR BPF_JEQ OR BPF_K) AUDIT_ARCH_ARM 5 0,
          BPF_STMT (BPF_RET OR BPF_K) SECCOMP_RET_TRAP,
          BPF_STMT (BPF_LD OR BPF_W OR BPF_ABS) syscall_nr,
          BPF_JUMP (BPF_JMP OR BPF_JEQ OR BPF_K) 5 0 1,
          BPF_STMT (BPF_RET OR BPF_K) SECCOMP_RET_ALLOW,
          BPF_STMT (BPF_RET OR BPF_K) SECCOMP_RET_TRAP,
          BPF_STMT (BPF_LD OR BPF_W OR BPF_ABS) syscall_nr,
          BPF_STMT (BPF_RET OR BPF_K) SECCOMP_RET_TRAP]\<rparr>)
   \<and> length [BPF_JUMP (BPF_JMP OR BPF_JEQ OR BPF_K) 5 0 1,
         BPF_STMT (BPF_RET OR BPF_K) SECCOMP_RET_ALLOW] + 6 < (2::nat) ^ 64
   \<and> arch \<lparr>nr = 6, arch = AUDIT_ARCH_AARCH64\<rparr> = AUDIT_ARCH_AARCH64
   \<and> run [BPF_JUMP (BPF_JMP OR BPF_JEQ OR BPF_K) 5 0 1,
         BPF_STMT (BPF_RET OR BPF_K) SECCOMP_RET_ALLOW]
         \<lparr>nr = 6, arch = AUDIT_ARCH_AARCH64\<rparr> 0 (nr \<lparr>nr = 6, arch = AUDIT_ARCH_AARCH64\<rparr>)
       = FellOff (length [BPF_JUMP (BPF_JMP OR BPF_JEQ OR BPF_K) 5 0 1,
         BPF_STMT (BPF_RET OR BPF_K) SECCOMP_RET_ALLOW]) 6
   \<and> run_filter
         [BPF_STMT (BPF_LD OR BPF_W OR BPF_ABS) arch_nr,
          BPF_JUMP (BPF_JMP OR BPF_JEQ OR BPF_K) AUDIT_ARCH_AARCH64 2 0,
          BPF_JUMP (BPF_JMP OR BPF_JEQ OR BPF_K) AUDIT_ARCH_ARM 5 0,
          BPF_STMT (BPF_RET OR BPF_K) SECCOMP_RET_TRAP,
          BPF_STMT (BPF_LD OR BPF_W OR BPF_ABS) syscall_nr,
          BPF_JUMP (BPF_JMP OR BPF_JEQ OR BPF_K) 5 0 1,
          BPF_STMT (BPF_RET OR BPF_K) SECCOMP_RET_ALLOW,
          BPF_STMT (BPF_RET OR BPF_K) SECCOMP_RET_TRAP,
          BPF_STMT (BPF_LD OR BPF_W OR BPF_ABS) syscall_nr,
          BPF_STMT (BPF_RET OR BPF_K) SECCOMP_RET_TRAP]
         \<lparr>nr = 6, arch = AUDIT_ARCH_AARCH64\<rparr> = Ret SECCOMP_RET_TRAP"
proof -
  let ?d = "\<lparr>nr = 6, arch = AUDIT_ARCH_AARCH64\<rparr>"
  have h1: "length [BPF_JUMP (BPF_JMP OR BPF_JEQ OR BPF_K) 5 0 1,
         BPF_STMT (BPF_RET OR BPF_K) SECCOMP_RET_ALLOW] + 6 < (2::nat) ^ 64"
    by simp
  have h2: "arch ?d = AUDIT_ARCH_AARCH64" by simp
  have h3: "run [BPF_JUMP (BPF_JMP OR BPF_JEQ OR BPF_K) 5 0 1,
         BPF_STMT (BPF_RET OR BPF_K) SECCOMP_RET_ALLOW] ?d 0 (nr ?d)
       = FellOff (length [BPF_JUMP (BPF_JMP OR BPF_JEQ OR BPF_K) 5 0 1,
         BPF_STMT (BPF_RET OR BPF_K) SECCOMP_RET_ALLOW]) 6"
    by (simp add: run.simps BPF_STMT_def BPF_JUMP_def opcode_defs seccomp_load_def syscall_nr_def arch_nr_def AUDIT_ARCH_AARCH64_def AUDIT_ARCH_ARM_def)
  from policy_block_embedded_and_capped [OF example_build h1, of ?d 6] h2 h3
  have "run_filter (filter_insns \<lparr>len = 10, filter_insns =
         [BPF_STMT (BPF_LD OR BPF_W OR BPF_ABS) arch_nr,
          BPF_JUMP (BPF_JMP OR BPF_JEQ OR BPF_K) AUDIT_ARCH_AARCH64 2 0,
          BPF_JUMP (BPF_JMP OR BPF_JEQ OR BPF_K) AUDIT_ARCH_ARM 5 0,
          BPF_STMT (BPF_RET OR BPF_K) SECCOMP_RET_TRAP,
          BPF_STMT (BPF_LD OR BPF_W OR BPF_ABS) syscall_nr,
          BPF_JUMP (BPF_JMP OR BPF_JEQ OR BPF_K) 5 0 1,
          BPF_STMT (BPF_RET OR BPF_K) SECCOMP_RET_ALLOW,
          BPF_STMT (BPF_RET OR BPF_K) SECCOMP_RET_TRAP,
          BPF_STMT (BPF_LD OR BPF_W OR BPF_ABS) syscall_nr,
          BPF_STMT (BPF_RET OR BPF_K) SECCOMP_RET_TRAP]\<rparr>) ?d = Ret SECCOMP_RET_TRAP"
    by blast
  then have "run_filter [BPF_STMT (BPF_LD OR BPF_W OR BPF_ABS) arch_nr,
          BPF_JUMP (BPF_JMP OR BPF_JEQ OR BPF_K) AUDIT_ARCH_AARCH64 2 0,
          BPF_JUMP (BPF_JMP OR BPF_JEQ OR BPF_K) AUDIT_ARCH_ARM 5 0,
          BPF_STMT (BPF_RET OR BPF_K) SECCOMP_RET_TRAP,
          BPF_STMT (BPF_LD OR BPF_W OR BPF_ABS) syscall_nr,
          BPF_JUMP (BPF_JMP OR BPF_JEQ OR BPF_K) 5 0 1,
          BPF_STMT (BPF_RET OR BPF_K) SECCOMP_RET_ALLOW,
          BPF_STMT (BPF_RET OR BPF_K) SECCOMP_RET_TRAP,
          BPF_STMT (BPF_LD OR BPF_W OR BPF_ABS) syscall_nr,
          BPF_STMT (BPF_RET OR BPF_K) SECCOMP_RET_TRAP] ?d = Ret SECCOMP_RET_TRAP"
    by (simp only: sock_fprog.select_convs)
  with example_build h1 h2 h3 show ?thesis by (simp only: simp_thms)
qed


text \<open>
  Claim C6. In the program built, the instruction at the patch index 2 is the
  branch-equal on \<^verbatim>\<open>AUDIT_ARCH_ARM\<close>; patch index plus one plus its true offset
  is the index of the second load of the syscall number, the instruction right after
  the trap that ends the 64-bit section; and under the tag \<^verbatim>\<open>AUDIT_ARCH_ARM\<close>
  evaluation continues at that index.
\<close>

theorem patched_jump_reaches_32bit_section:
  assumes "set_seccomp_filter prctl arm64_filter arm_filter = Some (ok, Some prog)"
    and "length arm64_filter + 6 < 2 ^ 64"
  shows "filter_insns prog ! 2 =
           BPF_JUMP (BPF_JMP OR BPF_JEQ OR BPF_K) AUDIT_ARCH_ARM (of_nat (length arm64_filter + 3)) 0
       \<and> 2 + 1 + unat (jt (filter_insns prog ! 2)) = length arm64_filter + 6
       \<and> filter_insns prog ! (length arm64_filter + 5) = BPF_STMT (BPF_RET OR BPF_K) SECCOMP_RET_TRAP
       \<and> filter_insns prog ! (2 + 1 + unat (jt (filter_insns prog ! 2)))
           = BPF_STMT (BPF_LD OR BPF_W OR BPF_ABS) syscall_nr
       \<and> (arch d = AUDIT_ARCH_ARM \<longrightarrow>
            run_filter (filter_insns prog) d
              = run (filter_insns prog) d (2 + 1 + unat (jt (filter_insns prog ! 2))) (arch d))"
proof -
  let ?n = "length arm64_filter"
  let ?P = "filter_insns prog"
  note bp = built_program [OF assms]
  note P = conjunct1 [OF bp]
  note t = conjunct2 [OF bp]
  have i2: "?P ! 2 = BPF_JUMP (BPF_JMP OR BPF_JEQ OR BPF_K) AUDIT_ARCH_ARM (of_nat (?n + 3)) 0"
    unfolding P by simp
  have jt2: "unat (jt (?P ! 2)) = ?n + 3"
    unfolding i2 using t by (simp only: BPF_JUMP_def sock_filter.select_convs)
  have tgt: "2 + 1 + unat (jt (?P ! 2)) = ?n + 6"
    unfolding jt2 by simp
  have trap: "?P ! (?n + 5) = BPF_STMT (BPF_RET OR BPF_K) SECCOMP_RET_TRAP"
    unfolding P by (simp add: nth_append)
  have load: "?P ! (?n + 6) = BPF_STMT (BPF_LD OR BPF_W OR BPF_ABS) syscall_nr"
    unfolding P by (simp add: nth_append)
  have ne: "AUDIT_ARCH_ARM \<noteq> AUDIT_ARCH_AARCH64"
    by (simp add: AUDIT_ARCH_ARM_def AUDIT_ARCH_AARCH64_def)
  have gate: "run_filter ?P d =
           (if arch d = AUDIT_ARCH_AARCH64 then run ?P d 4 (arch d)
            else if arch d = AUDIT_ARCH_ARM
              then run ?P d (3 + unat (of_nat (?n + 3) :: 8 word)) (arch d)
            else Ret SECCOMP_RET_TRAP)"
    by (rule run_gate) (simp add: P)
  have "3 + (?n + 3) = ?n + 6" by simp
  then have jump: "run_filter ?P d = run ?P d (?n + 6) (arch d)" if "arch d = AUDIT_ARCH_ARM"
    using gate that ne unfolding t by (simp add: add.commute)
  show ?thesis
    unfolding tgt using i2 trap load jump by simp
qed

theorem patched_jump_reaches_32bit_section_witness:
  "set_seccomp_filter (\<lambda>_. 0)
        [BPF_JUMP (BPF_JMP OR BPF_JEQ OR BPF_K) 5 0 1,
         BPF_STMT (BPF_RET OR BPF_K) SECCOMP_RET_ALLOW] []
     = Some (True, Some \<lparr>len = 10, filter_insns =
         [BPF_STMT (BPF_LD OR BPF_W OR BPF_ABS) arch_nr,
          BPF_JUMP (BPF_JMP OR BPF_JEQ OR BPF_K) AUDIT_ARCH_AARCH64 2 0,
          BPF_JUMP (BPF_JMP OR BPF_JEQ OR BPF_K) AUDIT_ARCH_ARM 5 0,
          BPF_STMT (BPF_RET OR BPF_K) SECCOMP_RET_TRAP,
          BPF_STMT (BPF_LD OR BPF_W OR BPF_ABS) syscall_nr,
          BPF_JUMP (BPF_JMP OR BPF_JEQ OR BPF_K) 5 0 1,
          BPF_STMT (BPF_RET OR BPF_K) SECCOMP_RET_ALLOW,
          BPF_STMT (BPF_RET OR BPF_K) SECCOMP_RET_TRAP,
          BPF_STMT (BPF_LD OR BPF_W OR BPF_ABS) syscall_nr,
          BPF_STMT (BPF_RET OR BPF_K) SECCOMP_RET_TRAP]\<rparr>)
   \<and> length [BPF_JUMP (BPF_JMP OR BPF_JEQ OR BPF_K) 5 0 1,
         BPF_STMT (BPF_RET OR BPF_K) SECCOMP_RET_ALLOW] + 6 < (2::nat) ^ 64
   \<and> 2 + 1 + unat (jt ([BPF_STMT (BPF_LD OR BPF_W OR BPF_ABS) arch_nr,
          BPF_JUMP (BPF_JMP OR BPF_JEQ OR BPF_K) AUDIT_ARCH_AARCH64 2 0,
          BPF_JUMP (BPF_JMP OR BPF_JEQ OR BPF_K) AUDIT_ARCH_ARM 5 0,
          BPF_STMT (BPF_RET OR BPF_K) SECCOMP_RET_TRAP,
          BPF_STMT (BPF_LD OR BPF_W OR BPF_ABS) syscall_nr,
          BPF_JUMP (BPF_JMP OR BPF_JEQ OR BPF_K) 5 0 1,
          BPF_STMT (BPF_RET OR BPF_K) SECCOMP_RET_ALLOW,
          BPF_STMT (BPF_RET OR BPF_K) SECCOMP_RET_TRAP,
          BPF_STMT (BPF_LD OR BPF_W OR BPF_ABS) syscall_nr,
          BPF_STMT (BPF_RET OR BPF_K) SECCOMP_RET_TRAP] ! 2)) = 8
   \<and> [BPF_STMT (BPF_LD OR BPF_W OR BPF_ABS) arch_nr,
          BPF_JUMP (BPF_JMP OR BPF_JEQ OR BPF_K) AUDIT_ARCH_AARCH64 2 0,
          BPF_JUMP (BPF_JMP OR BPF_JEQ OR BPF_K) AUDIT_ARCH_ARM 5 0,
          BPF_STMT (BPF_RET OR BPF_K) SECCOMP_RET_TRAP,
          BPF_STMT (BPF_LD OR BPF_W OR BPF_ABS) syscall_nr,
          BPF_JUMP (BPF_JMP OR BPF_JEQ OR BPF_K) 5 0 1,
          BPF_STMT (BPF_RET OR BPF_K) SECCOMP_RET_ALLOW,
          BPF_STMT (BPF_RET OR BPF_K) SECCOMP_RET_TRAP,
          BPF_STMT (BPF_LD OR BPF_W OR BPF_ABS) syscall_nr,
          BPF_STMT (BPF_RET OR BPF_K) SECCOMP_RET_TRAP] ! 8 = BPF_STMT (BPF_LD OR BPF_W OR BPF_ABS) syscall_nr"
proof -
  have h1: "length [BPF_JUMP (BPF_JMP OR BPF_JEQ OR BPF_K) 5 0 1,
         BPF_STMT (BPF_RET OR BPF_K) SECCOMP_RET_ALLOW] + 6 < (2::nat) ^ 64"
    by simp
  from patched_jump_reaches_32bit_section [OF example_build h1] example_build h1 show ?thesis
    by simp
qed


text \<open>
  Claim C7, as amended. For every program built and every architecture tag and syscall
  number such that the table selected by the tag, evaluated on its own from the loaded
  syscall number, either returns or leaves exactly at its end, evaluation of the
  program reaches a return. Under a tag other than the two gated ones no condition on
  the tables is needed.
\<close>

theorem evaluation_reaches_return:
  assumes "set_seccomp_filter prctl arm64_filter arm_filter = Some (ok, Some prog)"
    and "length arm64_filter + 6 < 2 ^ 64"
    and "arch d = AUDIT_ARCH_AARCH64 \<longrightarrow>
           (\<exists>v. run arm64_filter d 0 (nr d) = Ret v)
         \<or> (\<exists>B. run arm64_filter d 0 (nr d) = FellOff (length arm64_filter) B)"
    and "arch d = AUDIT_ARCH_ARM \<longrightarrow>
           (\<exists>v. run arm_filter d 0 (nr d) = Ret v)
         \<or> (\<exists>B. run arm_filter d 0 (nr d) = FellOff (length arm_filter) B)"
  shows "\<exists>v. run_filter (filter_insns prog) d = Ret v"
proof -
  note bp = built_program [OF assms(1,2)]
  note rb = run_built [OF conjunct1 [OF bp] conjunct2 [OF bp], of d]
  have ne: "AUDIT_ARCH_ARM \<noteq> AUDIT_ARCH_AARCH64"
    by (simp add: AUDIT_ARCH_ARM_def AUDIT_ARCH_AARCH64_def)
  consider (a64) "arch d = AUDIT_ARCH_AARCH64"
    | (arm) "arch d = AUDIT_ARCH_ARM"
    | (other) "arch d \<noteq> AUDIT_ARCH_AARCH64" "arch d \<noteq> AUDIT_ARCH_ARM"
    by blast
  then show ?thesis
  proof cases
    case a64
    with assms(3) rb show ?thesis by auto
  next
    case arm
    with assms(4) rb ne show ?thesis by auto
  next
    case other
    with rb show ?thesis by simp
  qed
qed

theorem evaluation_reaches_return_witness:
  "set_seccomp_filter (\<lambda>_. 0)
        [BPF_JUMP (BPF_JMP OR BPF_JEQ OR BPF_K) 5 0 1,
         BPF_STMT (BPF_RET OR BPF_K) SECCOMP_RET_ALLOW] []
     = Some (True, Some \<lparr>len = 10, filter_insns =
         [BPF_STMT (BPF_LD OR BPF_W OR BPF_ABS) arch_nr,
          BPF_JUMP (BPF_JMP OR BPF_JEQ OR BPF_K) AUDIT_ARCH_AARCH64 2 0,
          BPF_JUMP (BPF_JMP OR BPF_JEQ OR BPF_K) AUDIT_ARCH_ARM 5 0,
          BPF_STMT (BPF_RET OR BPF_K) SECCOMP_RET_TRAP,
          BPF_STMT (BPF_LD OR BPF_W OR BPF_ABS) syscall_nr,
          BPF_JUMP (BPF_JMP OR BPF_JEQ OR BPF_K) 5 0 1,
          BPF_STMT (BPF_RET OR BPF_K) SECCOMP_RET_ALLOW,
          BPF_STMT (BPF_RET OR BPF_K) SECCOMP_RET_TRAP,
          BPF_STMT (BPF_LD OR BPF_W OR BPF_ABS) syscall_nr,
          BPF_STMT (BPF_RET OR BPF_K) SECCOMP_RET_TRAP]\<rparr>)
   \<and> length [BPF_JUMP (BPF_JMP OR BPF_JEQ OR BPF_K) 5 0 1,
         BPF_STMT (BPF_RET OR BPF_K) SECCOMP_RET_ALLOW] + 6 < (2::nat) ^ 64
   \<and> arch \<lparr>nr = 5, arch = AUDIT_ARCH_AARCH64\<rparr> = AUDIT_ARCH_AARCH64
   \<and> run [BPF_JUMP (BPF_JMP OR BPF_JEQ OR BPF_K) 5 0 1,
         BPF_STMT (BPF_RET OR BPF_K) SECCOMP_RET_ALLOW]
         \<lparr>nr = 5, arch = AUDIT_ARCH_AARCH64\<rparr> 0 (nr \<lparr>nr = 5, arch = AUDIT_ARCH_AARCH64\<rparr>)
       = Ret SECCOMP_RET_ALLOW
   \<and> (\<exists>v. run_filter
         [BPF_STMT (BPF_LD OR BPF_W OR BPF_ABS) arch_nr,
          BPF_JUMP (BPF_JMP OR BPF_JEQ OR BPF_K) AUDIT_ARCH_AARCH64 2 0,
          BPF_JUMP (BPF_JMP OR BPF_JEQ OR BPF_K) AUDIT_ARCH_ARM 5 0,
          BPF_STMT (BPF_RET OR BPF_K) SECCOMP_RET_TRAP,
          BPF_STMT (BPF_LD OR BPF_W OR BPF_ABS) syscall_nr,
          BPF_JUMP (BPF_JMP OR BPF_JEQ OR BPF_K) 5 0 1,
          BPF_STMT (BPF_RET OR BPF_K) SECCOMP_RET_ALLOW,
          BPF_STMT (BPF_RET OR BPF_K) SECCOMP_RET_TRAP,
          BPF_STMT (BPF_LD OR BPF_W OR BPF_ABS) syscall_nr,
          BPF_STMT (BPF_RET OR BPF_K) SECCOMP_RET_TRAP]
         \<lparr>nr = 5, arch = AUDIT_ARCH_AARCH64\<rparr> = Ret v)"
proof -
  let ?d = "\<lparr>nr = 5, arch = AUDIT_ARCH_AARCH64\<rparr>"
  have ne: "AUDIT_ARCH_AARCH64 \<noteq> AUDIT_ARCH_ARM"
    by (simp add: AUDIT_ARCH_ARM_def AUDIT_ARCH_AARCH64_def)
  have h1: "length [BPF_JUMP (BPF_JMP OR BPF_JEQ OR BPF_K) 5 0 1,
         BPF_STMT (BPF_RET OR BPF_K) SECCOMP_RET_ALLOW] + 6 < (2::nat) ^ 64"
    by simp
  have h2: "arch ?d = AUDIT_ARCH_AARCH64" by simp
  have h3: "run [BPF_JUMP (BPF_JMP OR BPF_JEQ OR BPF_K) 5 0 1,
         BPF_STMT (BPF_RET OR BPF_K) SECCOMP_RET_ALLOW] ?d 0 (nr ?d) = Ret SECCOMP_RET_ALLOW"
    by (simp add: run.simps BPF_STMT_def BPF_JUMP_def opcode_defs seccomp_load_def syscall_nr_def arch_nr_def AUDIT_ARCH_AARCH64_def AUDIT_ARCH_ARM_def)
  have h4: "arch ?d = AUDIT_ARCH_AARCH64 \<longrightarrow>
           (\<exists>v. run [BPF_JUMP (BPF_JMP OR BPF_JEQ OR BPF_K) 5 0 1,
         BPF_STMT (BPF_RET OR BPF_K) SECCOMP_RET_ALLOW] ?d 0 (nr ?d) = Ret v)
         \<or> (\<exists>B. run [BPF_JUMP (BPF_JMP OR BPF_JEQ OR BPF_K) 5 0 1,
         BPF_STMT (BPF_RET OR BPF_K) SECCOMP_RET_ALLOW] ?d 0 (nr ?d) = FellOff (length [BPF_JUMP (BPF_JMP OR BPF_JEQ OR BPF_K) 5 0 1,
         BPF_STMT (BPF_RET OR BPF_K) SECCOMP_RET_ALLOW]) B)"
    using h3 by simp
  have h5: "arch ?d = AUDIT_ARCH_ARM \<longrightarrow>
           (\<exists>v. run [] ?d 0 (nr ?d) = Ret v)
         \<or> (\<exists>B. run [] ?d 0 (nr ?d) = FellOff (length ([] :: sock_filter list)) B)"
    using ne by simp
  from evaluation_reaches_return [OF example_build h1 h4 h5]
  have "\<exists>v. run_filter [BPF_STMT (BPF_LD OR BPF_W OR BPF_ABS) arch_nr,
          BPF_JUMP (BPF_JMP OR BPF_JEQ OR BPF_K) AUDIT_ARCH_AARCH64 2 0,
          BPF_JUMP (BPF_JMP OR BPF_JEQ OR BPF_K) AUDIT_ARCH_ARM 5 0,
          BPF_STMT (BPF_RET OR BPF_K) SECCOMP_RET_TRAP,
          BPF_STMT (BPF_LD OR BPF_W OR BPF_ABS) syscall_nr,
          BPF_JUMP (BPF_JMP OR BPF_JEQ OR BPF_K) 5 0 1,
          BPF_STMT (BPF_RET OR BPF_K) SECCOMP_RET_ALLOW,
          BPF_STMT (BPF_RET OR BPF_K) SECCOMP_RET_TRAP,
          BPF_STMT (BPF_LD OR BPF_W OR BPF_ABS) syscall_nr,
          BPF_STMT (BPF_RET OR BPF_K) SECCOMP_RET_TRAP] ?d = Ret v"
    by (simp only: sock_fprog.select_convs)
  with example_build h1 h2 h3 show ?thesis by (simp only: simp_thms)
qed

text \<open>
  The claim as it was stated is for any contents of the two tables. The builder does not
  look into the tables: with a 32-bit table of one branch whose two offsets are 1, the
  build succeeds, and under the tag \<^verbatim>\<open>AUDIT_ARCH_ARM\<close> evaluation passes over the
  last trap and leaves the program of nine instructions at index 9.
\<close>

theorem evaluation_falls_off_end:
  "set_seccomp_filter (\<lambda>_. 0) [] [BPF_JUMP (BPF_JMP OR BPF_JEQ OR BPF_K) 0 1 1]
     = Some (True, Some \<lparr>len = 9, filter_insns =
         [BPF_STMT (BPF_LD OR BPF_W OR BPF_ABS) arch_nr,
          BPF_JUMP (BPF_JMP OR BPF_JEQ OR BPF_K) AUDIT_ARCH_AARCH64 2 0,
          BPF_JUMP (BPF_JMP OR BPF_JEQ OR BPF_K) AUDIT_ARCH_ARM 3 0,
          BPF_STMT (BPF_RET OR BPF_K) SECCOMP_RET_TRAP,
          BPF_STMT (BPF_LD OR BPF_W OR BPF_ABS) syscall_nr,
          BPF_STMT (BPF_RET OR BPF_K) SECCOMP_RET_TRAP,
          BPF_STMT (BPF_LD OR BPF_W OR BPF_ABS) syscall_nr,
          BPF_JUMP (BPF_JMP OR BPF_JEQ OR BPF_K) 0 1 1,
          BPF_STMT (BPF_RET OR BPF_K) SECCOMP_RET_TRAP]\<rparr>)
   \<and> run_filter
         [BPF_STMT (BPF_LD OR BPF_W OR BPF_ABS) arch_nr,
          BPF_JUMP (BPF_JMP OR BPF_JEQ OR BPF_K) AUDIT_ARCH_AARCH64 2 0,
          BPF_JUMP (BPF_JMP OR BPF_JEQ OR BPF_K) AUDIT_ARCH_ARM 3 0,
          BPF_STMT (BPF_RET OR BPF_K) SECCOMP_RET_TRAP,
          BPF_STMT (BPF_LD OR BPF_W OR BPF_ABS) syscall_nr,
          BPF_STMT (BPF_RET OR BPF_K) SECCOMP_RET_TRAP,
          BPF_STMT (BPF_LD OR BPF_W OR BPF_ABS) syscall_nr,
          BPF_JUMP (BPF_JMP OR BPF_JEQ OR BPF_K) 0 1 1,
          BPF_STMT (BPF_RET OR BPF_K) SECCOMP_RET_TRAP]
         \<lparr>nr = 0, arch = AUDIT_ARCH_ARM\<rparr> = FellOff 9 0"
proof -
  have b: "set_seccomp_filter (\<lambda>_. 0) [] [BPF_JUMP (BPF_JMP OR BPF_JEQ OR BPF_K) 0 1 1]
     = Some (True, Some \<lparr>len = 9, filter_insns =
         [BPF_STMT (BPF_LD OR BPF_W OR BPF_ABS) arch_nr,
          BPF_JUMP (BPF_JMP OR BPF_JEQ OR BPF_K) AUDIT_ARCH_AARCH64 2 0,
          BPF_JUMP (BPF_JMP OR BPF_JEQ OR BPF_K) AUDIT_ARCH_ARM 3 0,
          BPF_STMT (BPF_RET OR BPF_K) SECCOMP_RET_TRAP,
          BPF_STMT (BPF_LD OR BPF_W OR BPF_ABS) syscall_nr,
          BPF_STMT (BPF_RET OR BPF_K) SECCOMP_RET_TRAP,
          BPF_STMT (BPF_LD OR BPF_W OR BPF_ABS) syscall_nr,
          BPF_JUMP (BPF_JMP OR BPF_JEQ OR BPF_K) 0 1 1,
          BPF_STMT (BPF_RET OR BPF_K) SECCOMP_RET_TRAP]\<rparr>)"
    by (simp add: set_seccomp_filter_closed install_filter_def vsize_def)
  have r: "run_filter
         [BPF_STMT (BPF_LD OR BPF_W OR BPF_ABS) arch_nr,
          BPF_JUMP (BPF_JMP OR BPF_JEQ OR BPF_K) AUDIT_ARCH_AARCH64 2 0,
          BPF_JUMP (BPF_JMP OR BPF_JEQ OR BPF_K) AUDIT_ARCH_ARM 3 0,
          BPF_STMT (BPF_RET OR BPF_K) SECCOMP_RET_TRAP,
          BPF_STMT (BPF_LD OR BPF_W OR BPF_ABS) syscall_nr,
          BPF_STMT (BPF_RET OR BPF_K) SECCOMP_RET_TRAP,
          BPF_STMT (BPF_LD OR BPF_W OR BPF_ABS) syscall_nr,
          BPF_JUMP (BPF_JMP OR BPF_JEQ OR BPF_K) 0 1 1,
          BPF_STMT (BPF_RET OR BPF_K) SECCOMP_RET_TRAP]
         \<lparr>nr = 0, arch = AUDIT_ARCH_ARM\<rparr> = FellOff 9 0"
    by (simp add: run_filter_def run.simps BPF_STMT_def BPF_JUMP_def opcode_defs
      seccomp_load_def syscall_nr_def arch_nr_def AUDIT_ARCH_AARCH64_def AUDIT_ARCH_ARM_def)
  from b r show ?thesis by (rule conjI)
qed



end
